theory Spec2Isabelle
  imports Main "HOL-Library.Sublist"
begin

section \<open>Python values and exceptions\<close>

text \<open>
  The exceptions that the modelled code can raise, and the values that YAML and JSON
  produce: \<open>None\<close>, booleans, integers, strings, lists and dictionaries with string
  keys. A dictionary is an association list in insertion order with distinct keys.
  Floating point numbers are not modelled.
\<close>

datatype error = ValueError | TypeError | KeyError | AttributeError

datatype pyval = PNone | PBool bool | PInt int | PStr string
  | PList "pyval list" | PDict "(string \<times> pyval) list"

section \<open>Rule configuration and resolution (config/schema.py, config/rule_engine.py)\<close>

text \<open>
  The enums \<open>SeverityLevel\<close> and \<open>FileTypeConfig\<close> of config/schema.py, and the
  dataclasses \<open>RuleConfig\<close>, \<open>CheckerConfig\<close> and \<open>ConfigSchema\<close> restricted to the
  fields that rule resolution reads. A Python dictionary is a map; an
  \<open>Optional\<close> field is an option.
\<close>

datatype SeverityLevel = ERROR | WARNING | SUGGESTION | INFO

datatype FileTypeConfig = PYTHON | JAVASCRIPT | TYPESCRIPT | JSON | YAML | MARKDOWN

record RuleConfig =
  enabled :: bool
  severity :: SeverityLevel
  file_types :: "FileTypeConfig list option"
  ignore_patterns :: "string list"

record CheckerConfig =
  checker_enabled :: bool
  rules :: "string \<rightharpoonup> RuleConfig"
  severity_override :: "SeverityLevel option"

record ConfigSchema =
  checkers :: "string \<rightharpoonup> CheckerConfig"
  severity_threshold :: SeverityLevel
  fail_on_severity :: SeverityLevel
  max_issues_per_run :: int

record RuleContext =
  file_path :: string
  file_type :: "FileTypeConfig option"

record RuleResult =
  result_rule_name :: string
  result_checker_name :: string
  result_severity :: SeverityLevel
  result_message :: string
  result_line_number :: "int option"

text \<open>
  \<open>RuleFilter._matches_pattern\<close>. The two library calls it makes, \<open>fnmatch.fnmatch\<close>
  and \<open>re.search\<close>, are parameters: \<open>fnm text pattern\<close> is the answer of fnmatch, and
  \<open>rex pattern text\<close> is \<open>None\<close> when the pattern does not compile (\<open>re.error\<close>, which the
  source catches and answers with False). The type \<open>path\<close> is a substring test.
\<close>

definition substring_of :: "string \<Rightarrow> string \<Rightarrow> bool" where
  "substring_of p t = list_ex (\<lambda>s. prefix p s) (suffixes t)"

definition matches_pattern ::
  "(string \<Rightarrow> string \<Rightarrow> bool) \<Rightarrow> (string \<Rightarrow> string \<Rightarrow> bool option) \<Rightarrow>
   string \<Rightarrow> string \<Rightarrow> string \<Rightarrow> bool" where
  "matches_pattern fnm rex text pattern pattern_type =
     (if pattern_type = ''glob'' then fnm text pattern
      else if pattern_type = ''regex'' then
        (case rex pattern text of Some b \<Rightarrow> b | None \<Rightarrow> False)
      else if pattern_type = ''path'' then substring_of pattern text
      else False)"

text \<open>\<open>RuleFilter.filter_results_by_severity\<close> with its table \<open>severity_order\<close>.\<close>

fun severity_order :: "SeverityLevel \<Rightarrow> nat" where
  "severity_order INFO = 0"
| "severity_order SUGGESTION = 1"
| "severity_order WARNING = 2"
| "severity_order ERROR = 3"

definition filter_results_by_severity :: "ConfigSchema \<Rightarrow> RuleResult list \<Rightarrow> RuleResult list" where
  "filter_results_by_severity config results =
     (let threshold = severity_order (severity_threshold config)
      in filter (\<lambda>result. severity_order (result_severity result) \<ge> threshold) results)"

text \<open>\<open>RuleEngine.is_checker_enabled\<close>: a checker that the configuration does not
  mention is enabled.\<close>

definition is_checker_enabled :: "ConfigSchema \<Rightarrow> string \<Rightarrow> bool" where
  "is_checker_enabled config checker_name =
     (case checkers config checker_name of
        None \<Rightarrow> True
      | Some checker_config \<Rightarrow> checker_enabled checker_config)"

text \<open>
  \<open>RuleEngine.is_rule_enabled\<close>. The tests \<open>if not checker_config\<close> and
  \<open>if not rule_config\<close> are tests for \<open>None\<close> (a dataclass instance is always true).
  \<open>rule_config.file_types and context.file_type\<close> is true when the list is neither
  \<open>None\<close> nor empty and the file type of the context is known.
\<close>

definition is_rule_enabled ::
  "(string \<Rightarrow> string \<Rightarrow> bool) \<Rightarrow> (string \<Rightarrow> string \<Rightarrow> bool option) \<Rightarrow>
   ConfigSchema \<Rightarrow> string \<Rightarrow> string \<Rightarrow> RuleContext \<Rightarrow> bool" where
  "is_rule_enabled fnm rex config checker_name rule_name context =
     (if \<not> is_checker_enabled config checker_name then False
      else case checkers config checker_name of
        None \<Rightarrow> True
      | Some checker_config \<Rightarrow>
          (case rules checker_config rule_name of
             None \<Rightarrow> True
           | Some rule_config \<Rightarrow>
               if \<not> enabled rule_config then False
               else if (case (file_types rule_config, file_type context) of
                          (Some fts, Some ft) \<Rightarrow> fts \<noteq> [] \<and> ft \<notin> set fts
                        | _ \<Rightarrow> False) then False
               else if list_ex (\<lambda>pattern. matches_pattern fnm rex (file_path context) pattern ''glob'')
                         (ignore_patterns rule_config) then False
               else True))"

text \<open>\<open>RuleEngine.get_effective_severity\<close>.\<close>

definition get_effective_severity ::
  "ConfigSchema \<Rightarrow> string \<Rightarrow> string \<Rightarrow> SeverityLevel \<Rightarrow> SeverityLevel" where
  "get_effective_severity config checker_name rule_name default_severity =
     (case checkers config checker_name of
        None \<Rightarrow> default_severity
      | Some checker_config \<Rightarrow>
          (case severity_override checker_config of
             Some s \<Rightarrow> s
           | None \<Rightarrow>
               (case rules checker_config rule_name of
                  Some rule_config \<Rightarrow> severity rule_config
                | None \<Rightarrow> default_severity)))"

text \<open>
  The reading of resolution step 3 in the specification: a rule that declares an
  allow-list of file types applies only to a file whose type is in that list.
\<close>

definition spec_file_type_allowed :: "RuleConfig \<Rightarrow> RuleContext \<Rightarrow> bool" where
  "spec_file_type_allowed rule_config context =
     (case file_types rule_config of
        None \<Rightarrow> True
      | Some fts \<Rightarrow> (case file_type context of None \<Rightarrow> False | Some ft \<Rightarrow> ft \<in> set fts))"

section \<open>Configuration merging (config/config_parser.py)\<close>







text \<open>Concrete configurations used to exercise the theorems below.\<close>

definition glob_exact :: "string \<Rightarrow> string \<Rightarrow> bool" where
  "glob_exact text pattern = (text = pattern)"

definition no_regex :: "string \<Rightarrow> string \<Rightarrow> bool option" where
  "no_regex pattern text = None"

definition example_rule :: RuleConfig where
  "example_rule = \<lparr>enabled = True, severity = SUGGESTION,
     file_types = Some [PYTHON], ignore_patterns = [''vendor.py'']\<rparr>"

definition example_checker :: CheckerConfig where
  "example_checker = \<lparr>checker_enabled = True,
     rules = [''line_too_long'' \<mapsto> example_rule], severity_override = None\<rparr>"

definition example_config :: ConfigSchema where
  "example_config = \<lparr>checkers = [''style'' \<mapsto> example_checker],
     severity_threshold = INFO, fail_on_severity = ERROR, max_issues_per_run = 100\<rparr>"

definition example_results :: "RuleResult list" where
  "example_results =
     [\<lparr>result_rule_name = ''line_too_long'', result_checker_name = ''style'',
        result_severity = INFO, result_message = ''m1'', result_line_number = Some 3\<rparr>,
      \<lparr>result_rule_name = ''unsafe_eval'', result_checker_name = ''security'',
        result_severity = WARNING, result_message = ''m2'', result_line_number = Some 7\<rparr>,
      \<lparr>result_rule_name = ''hardcoded_secrets'', result_checker_name = ''security'',
        result_severity = ERROR, result_message = ''m3'', result_line_number = None\<rparr>]"

section \<open>The diff model and the line mapper (git/diff_parser.py)\<close>

text \<open>
  The dataclasses \<open>DiffLine\<close>, \<open>DiffHunk\<close>, \<open>FileDiff\<close> and \<open>GitDiffResult\<close>. Line
  numbers are Python integers; \<open>MODIFIED\<close> is also the change type the parser gives to a
  context line.
\<close>

datatype ChangeType = ADDED | REMOVED | MODIFIED | RENAMED

record DiffLine =
  line_number :: int
  old_line_number :: "int option"
  new_line_number :: "int option"
  content :: string
  change_type :: ChangeType

record DiffHunk =
  old_start :: int
  old_count :: int
  new_start :: int
  new_count :: int
  lines :: "DiffLine list"
  hunk_context :: string

record FileDiff =
  old_path :: string
  new_path :: string
  file_change_type :: ChangeType
  hunks :: "DiffHunk list"
  added_lines :: int
  removed_lines :: int
  is_binary :: bool

record GitDiffResult =
  files :: "FileDiff list"
  total_added :: int
  total_removed :: int

text \<open>The truth value Python gives to an \<open>Optional[int]\<close>: \<open>None\<close> and \<open>0\<close> are false.\<close>

fun truthy :: "int option \<Rightarrow> bool" where
  "truthy None = False"
| "truthy (Some n) = (n \<noteq> 0)"

text \<open>
  \<open>GitDiffParser.get_changed_lines_for_file\<close>: the body of the inner loop, one diff line
  applied to the pair of sets (added, removed), and the two nested loops as folds.
\<close>

fun changed_line :: "DiffLine \<Rightarrow> int set \<times> int set \<Rightarrow> int set \<times> int set" where
  "changed_line line (added, removed) =
     (if change_type line = ADDED \<and> truthy (new_line_number line)
        then (insert (the (new_line_number line)) added, removed)
      else if change_type line = REMOVED \<and> truthy (old_line_number line)
        then (added, insert (the (old_line_number line)) removed)
      else (added, removed))"

definition get_changed_lines_for_file :: "FileDiff \<Rightarrow> int set \<times> int set" where
  "get_changed_lines_for_file file_diff =
     fold (\<lambda>hunk acc. fold changed_line (lines hunk) acc) (hunks file_diff) ({}, {})"

text \<open>All diff lines of a file, hunk after hunk, in the order the loops visit them.\<close>

definition all_lines :: "FileDiff \<Rightarrow> DiffLine list" where
  "all_lines file_diff = concat (map lines (hunks file_diff))"

text \<open>The sets the specification of the line mapper describes: the \<open>new_line_number\<close>
  values of the added lines, and the \<open>old_line_number\<close> values of the removed lines.\<close>

definition spec_added :: "FileDiff \<Rightarrow> int set" where
  "spec_added file_diff =
     {n. \<exists>l \<in> set (all_lines file_diff). change_type l = ADDED \<and> new_line_number l = Some n}"

definition spec_removed :: "FileDiff \<Rightarrow> int set" where
  "spec_removed file_diff =
     {n. \<exists>l \<in> set (all_lines file_diff). change_type l = REMOVED \<and> old_line_number l = Some n}"

section \<open>The diff parser (git/diff_parser.py)\<close>

text \<open>
  Text is a list of characters with codes 0 to 255. \<open>str.split\<close> at the line feed always returns
  at least one piece; \<open>startswith\<close> is a prefix test.
\<close>

fun split_lines :: "string \<Rightarrow> string list" where
  "split_lines [] = [[]]"
| "split_lines (c # cs) =
     (if c = CHR 0x0A then [] # split_lines cs
      else (case split_lines cs of
              l # ls \<Rightarrow> (c # l) # ls
            | [] \<Rightarrow> [[c]]))"

definition startswith :: "string \<Rightarrow> string \<Rightarrow> bool" where
  "startswith s p = (take (length p) s = p)"

text \<open>
  The character classes of the regular expressions: \<open>\d\<close> is a decimal digit and \<open>\s\<close>
  is Python's white space (within the codes 0 to 255).
\<close>

definition is_digit :: "char \<Rightarrow> bool" where
  "is_digit c = (48 \<le> (of_char c :: nat) \<and> (of_char c :: nat) \<le> 57)"

definition is_space :: "char \<Rightarrow> bool" where
  "is_space c = ((of_char c :: nat) \<in> {9, 10, 11, 12, 13, 28, 29, 30, 31, 32, 133, 160})"

text \<open>
  The only operation of the parser that can raise is \<open>int(s)\<close>. It is modelled on the
  strings the parser can pass to it: a non-empty string of at most 4300 decimal digits
  has its decimal value; a longer one raises \<open>ValueError\<close>, as CPython 3.11 and 3.12 do
  by default (\<open>sys.int_info.default_max_str_digits\<close>); any other string is a
  \<open>ValueError\<close> too.
\<close>

definition max_str_digits :: nat where
  "max_str_digits = 4300"

definition py_int :: "string \<Rightarrow> error + int" where
  "py_int s =
     (if s \<noteq> [] \<and> list_all is_digit s \<and> length s \<le> max_str_digits
      then Inr (fold (\<lambda>c n. 10 * n + (int (of_char c) - 48)) s 0)
      else Inl ValueError)"

text \<open>
  \<open>re.search(pattern, line)\<close> tries the pattern at every position from the left and
  returns the first match; \<open>m\<close> is the pattern anchored at the start of its argument.
\<close>

fun re_search :: "(string \<Rightarrow> 'a option) \<Rightarrow> string \<Rightarrow> 'a option" where
  "re_search m [] = m []"
| "re_search m (c # cs) =
     (case m (c # cs) of Some r \<Rightarrow> Some r | None \<Rightarrow> re_search m cs)"

fun strip_prefix :: "string \<Rightarrow> string \<Rightarrow> string option" where
  "strip_prefix [] s = Some s"
| "strip_prefix (p # ps) [] = None"
| "strip_prefix (p # ps) (c # cs) = (if p = c then strip_prefix ps cs else None)"

text \<open>
  The pattern \<open>diff --git a/(.+) b/(.+)\<close>. The first group is greedy: it ends at the
  last occurrence of \<open>" b/"\<close> that leaves at least one character on each side, and the
  second group is the rest of the line.
\<close>

definition split_greedy :: "string \<Rightarrow> (string \<times> string) option" where
  "split_greedy r =
     (case filter (\<lambda>k. take 3 (drop k r) = '' b/'' \<and> k + 3 < length r) (rev [1..<length r]) of
        [] \<Rightarrow> None
      | k # ks \<Rightarrow> Some (take k r, drop (k + 3) r))"

definition match_git_header :: "string \<Rightarrow> (string \<times> string) option" where
  "match_git_header s =
     (case strip_prefix ''diff --git a/'' s of None \<Rightarrow> None | Some r \<Rightarrow> split_greedy r)"

text \<open>The patterns \<open>--- a/(.+)\<close> and \<open>\+\+\+ b/(.+)\<close>: a prefix and a non-empty rest.\<close>

definition match_path :: "string \<Rightarrow> string \<Rightarrow> string option" where
  "match_path p s =
     (case strip_prefix p s of
        None \<Rightarrow> None
      | Some r \<Rightarrow> if r = [] then None else Some r)"

text \<open>
  The pattern \<open>@@\s*-(\d+)(?:,(\d+))?\s+\+(\d+)(?:,(\d+))?\s*@@\<close> of the hunk header. Each
  repetition is greedy and is followed by a character outside its class, so that no
  shorter repetition can match.
\<close>

definition take_digits :: "string \<Rightarrow> (string \<times> string) option" where
  "take_digits s =
     (if takeWhile is_digit s = [] then None
      else Some (takeWhile is_digit s, dropWhile is_digit s))"

definition opt_count :: "string \<Rightarrow> string option \<times> string" where
  "opt_count s =
     (case s of
        [] \<Rightarrow> (None, s)
      | c # r \<Rightarrow>
          if c = CHR '','' then
            (case take_digits r of Some (d, r') \<Rightarrow> (Some d, r') | None \<Rightarrow> (None, s))
          else (None, s))"

definition match_hunk_header ::
  "string \<Rightarrow> (string \<times> string option \<times> string \<times> string option) option" where
  "match_hunk_header s =
     (case strip_prefix ''@@'' s of None \<Rightarrow> None | Some s1 \<Rightarrow>
      (case strip_prefix ''-'' (dropWhile is_space s1) of None \<Rightarrow> None | Some s2 \<Rightarrow>
       (case take_digits s2 of None \<Rightarrow> None | Some (g1, s3) \<Rightarrow>
        (case opt_count s3 of (g2, s4) \<Rightarrow>
          if takeWhile is_space s4 = [] then None
          else
           (case strip_prefix ''+'' (dropWhile is_space s4) of None \<Rightarrow> None | Some s5 \<Rightarrow>
            (case take_digits s5 of None \<Rightarrow> None | Some (g3, s6) \<Rightarrow>
             (case opt_count s6 of (g4, s7) \<Rightarrow>
               (case strip_prefix ''@@'' (dropWhile is_space s7) of
                  None \<Rightarrow> None
                | Some s8 \<Rightarrow> Some (g1, g2, g3, g4)))))))))"

definition hunk_match ::
  "string \<Rightarrow> (string \<times> string option \<times> string \<times> string option) option" where
  "hunk_match hunk_header = re_search match_hunk_header hunk_header"

text \<open>
  The loop over the content of a hunk in \<open>_parse_hunk\<close> (lines 216 to 267), on the lines
  from index \<open>i\<close> on. It returns the diff lines and the lines from the final \<open>i\<close> on.
\<close>

definition hunk_end :: "string \<Rightarrow> bool" where
  "hunk_end line = (startswith line ''@@'' \<or> startswith line ''diff --git'')"

fun hunk_content :: "string list \<Rightarrow> int \<Rightarrow> int \<Rightarrow> DiffLine list \<times> string list" where
  "hunk_content [] old_line new_line = ([], [])"
| "hunk_content (line # rest) old_line new_line =
     (if hunk_end line then ([], line # rest)
      else case line of
        [] \<Rightarrow> hunk_content rest old_line new_line
      | change_indicator # text \<Rightarrow>
          if change_indicator = CHR ''+'' then
            (case hunk_content rest old_line (new_line + 1) of (hunk_lines, r) \<Rightarrow>
              (\<lparr>line_number = new_line, old_line_number = None, new_line_number = Some new_line,
                content = text, change_type = ADDED\<rparr> # hunk_lines, r))
          else if change_indicator = CHR ''-'' then
            (case hunk_content rest (old_line + 1) new_line of (hunk_lines, r) \<Rightarrow>
              (\<lparr>line_number = old_line, old_line_number = Some old_line, new_line_number = None,
                content = text, change_type = REMOVED\<rparr> # hunk_lines, r))
          else
            (case hunk_content rest (old_line + 1) (new_line + 1) of (hunk_lines, r) \<Rightarrow>
              (\<lparr>line_number = new_line, old_line_number = Some old_line,
                new_line_number = Some new_line,
                content = text, change_type = MODIFIED\<rparr> # hunk_lines, r)))"

text \<open>The count of a hunk header: \<open>int(group) if group else 1\<close>.\<close>

definition count_or_one :: "string option \<Rightarrow> error + int" where
  "count_or_one g =
     (case g of None \<Rightarrow> Inr 1 | Some s \<Rightarrow> if s = [] then Inr 1 else py_int s)"

text \<open>\<open>GitDiffParser._parse_hunk\<close>, on the lines from \<open>start_idx\<close> on.\<close>

definition parse_hunk :: "string list \<Rightarrow> error + (DiffHunk option \<times> string list)" where
  "parse_hunk ls =
     (case ls of
        [] \<Rightarrow> Inr (None, [])
      | hunk_header # body \<Rightarrow>
          if \<not> startswith hunk_header ''@@'' then Inr (None, ls)
          else
            (case hunk_match hunk_header of
               None \<Rightarrow> Inr (None, body)
             | Some (g1, g2, g3, g4) \<Rightarrow>
                 (case py_int g1 of Inl e \<Rightarrow> Inl e | Inr os \<Rightarrow>
                  (case count_or_one g2 of Inl e \<Rightarrow> Inl e | Inr oc \<Rightarrow>
                   (case py_int g3 of Inl e \<Rightarrow> Inl e | Inr ns \<Rightarrow>
                    (case count_or_one g4 of Inl e \<Rightarrow> Inl e | Inr nc \<Rightarrow>
                     (case hunk_content body os ns of (hunk_lines, rest) \<Rightarrow>
                        Inr (Some \<lparr>old_start = os, old_count = oc, new_start = ns,
                                   new_count = nc, lines = hunk_lines,
                                   hunk_context = hunk_header\<rparr>, rest))))))))"

lemma hunk_content_length:
  "hunk_content ls old_line new_line = (hunk_lines, rest) \<Longrightarrow> length rest \<le> length ls"
proof (induction ls arbitrary: old_line new_line hunk_lines rest)
  case Nil
  then show ?case by simp
next
  case (Cons line ls)
  show ?case
  proof (cases "hunk_end line")
    case True
    with Cons.prems show ?thesis by simp
  next
    case False
    show ?thesis
    proof (cases line)
      case Nil
      with False Cons.prems Cons.IH [of old_line new_line hunk_lines rest] show ?thesis
        by simp
    next
      case (Cons c content)
      with False Cons.prems show ?thesis
        by (auto split: if_splits prod.splits dest: Cons.IH le_SucI)
    qed
  qed
qed

lemma parse_hunk_length:
  "parse_hunk (l # ls) = Inr (hunk, rest) \<Longrightarrow> startswith l ''@@'' \<Longrightarrow> length rest \<le> length ls"
  by (auto simp: parse_hunk_def split: option.splits sum.splits prod.splits
      dest: hunk_content_length)

text \<open>The loop over the hunks of a file in \<open>_parse_file_diff\<close> (lines 160 to 164).\<close>

function parse_hunks :: "string list \<Rightarrow> error + (DiffHunk list \<times> string list)" where
  "parse_hunks [] = Inr ([], [])"
| "parse_hunks (l # ls) =
     (if startswith l ''@@'' then
        (case parse_hunk (l # ls) of
           Inl e \<Rightarrow> Inl e
         | Inr (hunk, rest) \<Rightarrow>
             (case parse_hunks rest of
                Inl e \<Rightarrow> Inl e
              | Inr (hs, rest') \<Rightarrow>
                  Inr ((case hunk of Some h \<Rightarrow> [h] | None \<Rightarrow> []) @ hs, rest')))
      else Inr ([], l # ls))"
  by pat_completeness auto
termination
  by (relation "measure length") (auto dest: parse_hunk_length)

text \<open>
  The loop over the header lines of a file (lines 131 to 157). Its state is the old
  path, the new path, the change type and the binary flag.
\<close>

type_synonym file_info = "string option \<times> string option \<times> ChangeType \<times> bool"

definition info_line :: "string \<Rightarrow> file_info \<Rightarrow> file_info" where
  "info_line line st =
     (case st of (old_p, new_p, ct, binary) \<Rightarrow>
        if startswith line ''new file mode'' then (old_p, new_p, ADDED, binary)
        else if startswith line ''deleted file mode'' then (old_p, new_p, REMOVED, binary)
        else if startswith line ''rename from'' then (old_p, new_p, RENAMED, binary)
        else if startswith line ''--- '' then
          (case re_search (match_path ''--- a/'') line of
             Some p \<Rightarrow> (Some p, new_p, ct, binary)
           | None \<Rightarrow>
               if line = ''--- /dev/null'' then (old_p, new_p, ADDED, binary) else st)
        else if startswith line ''+++ '' then
          (case re_search (match_path ''+++ b/'') line of
             Some p \<Rightarrow> (old_p, Some p, ct, binary)
           | None \<Rightarrow>
               if line = ''+++ /dev/null'' then (old_p, new_p, REMOVED, binary) else st)
        else if substring_of ''Binary files'' line then (old_p, new_p, ct, True)
        else st)"

fun scan_info :: "string list \<Rightarrow> file_info \<Rightarrow> file_info \<times> string list" where
  "scan_info [] st = (st, [])"
| "scan_info (line # rest) st =
     (if hunk_end line then (st, line # rest) else scan_info rest (info_line line st))"

text \<open>The header of a file section (lines 121 to 128): the paths of the
  \<open>diff --git\<close> line, and the lines after it.\<close>

definition file_header :: "string list \<Rightarrow> file_info \<times> string list" where
  "file_header ls =
     (case ls of
        [] \<Rightarrow> ((None, None, MODIFIED, False), [])
      | diff_line # rest \<Rightarrow>
          if startswith diff_line ''diff --git'' then
            (case re_search match_git_header diff_line of
               Some (p1, p2) \<Rightarrow> ((Some p1, Some p2, MODIFIED, False), rest)
             | None \<Rightarrow> ((None, None, MODIFIED, False), rest))
          else ((None, None, MODIFIED, False), ls))"

text \<open>\<open>not path\<close>: the path is \<open>None\<close> or the empty string.\<close>

fun no_path :: "string option \<Rightarrow> bool" where
  "no_path None = True"
| "no_path (Some p) = (p = [])"

text \<open>The paths of a file section when its header lines have been read.\<close>

definition section_paths :: "string list \<Rightarrow> string option \<times> string option" where
  "section_paths ls =
     (case file_header ls of (st, ls1) \<Rightarrow>
        (case scan_info ls1 st of ((old_p, new_p, ct, binary), ls2) \<Rightarrow>
           (old_p, new_p)))"

text \<open>\<open>GitDiffParser._parse_file_diff\<close>, on the lines from \<open>start_idx\<close> on.\<close>

definition parse_file_diff :: "string list \<Rightarrow> error + (FileDiff option \<times> string list)" where
  "parse_file_diff ls =
     (case file_header ls of (st, ls1) \<Rightarrow>
        (case scan_info ls1 st of ((old_p, new_p, ct, binary), ls2) \<Rightarrow>
           (case parse_hunks ls2 of
              Inl e \<Rightarrow> Inl e
            | Inr (hs, ls3) \<Rightarrow>
                if no_path old_p \<or> no_path new_p then Inr (None, ls3)
                else
                  Inr (Some \<lparr>old_path = the old_p, new_path = the new_p,
                             file_change_type = ct, hunks = hs,
                             added_lines = sum_list (map (\<lambda>hunk.
                               int (length (filter (\<lambda>line. change_type line = ADDED) (lines hunk)))) hs),
                             removed_lines = sum_list (map (\<lambda>hunk.
                               int (length (filter (\<lambda>line. change_type line = REMOVED) (lines hunk)))) hs),
                             is_binary = binary\<rparr>, ls3))))"

lemma scan_info_length: "scan_info ls st = (st', rest) \<Longrightarrow> length rest \<le> length ls"
proof (induction ls st rule: scan_info.induct)
  case (1 st)
  then show ?case by simp
next
  case (2 line ls st)
  show ?case
  proof (cases "hunk_end line")
    case True
    with 2(2) show ?thesis by simp
  next
    case False
    with 2(2) have "scan_info ls (info_line line st) = (st', rest)" by simp
    from 2(1) [OF False this] show ?thesis by simp
  qed
qed

lemma parse_hunks_length: "parse_hunks ls = Inr (hs, rest) \<Longrightarrow> length rest \<le> length ls"
proof (induction ls arbitrary: hs rest rule: parse_hunks.induct)
  case 1
  then show ?case by simp
next
  case (2 l ls)
  show ?case
  proof (cases "startswith l ''@@''")
    case False
    with 2(2) show ?thesis by simp
  next
    case True
    with 2(2) obtain hunk r hs' where
      ph: "parse_hunk (l # ls) = Inr (hunk, r)" and phs: "parse_hunks r = Inr (hs', rest)"
      by (auto split: sum.splits prod.splits)
    from 2(1) [OF True ph refl phs] have "length rest \<le> length r" .
    moreover from parse_hunk_length [OF ph True] have "length r \<le> length ls" .
    ultimately show ?thesis by simp
  qed
qed

lemma parse_file_diff_length:
  "parse_file_diff (l # ls) = Inr (fd, rest) \<Longrightarrow> startswith l ''diff --git'' \<Longrightarrow>
   length rest \<le> length ls"
  by (auto simp: parse_file_diff_def file_header_def
      split: option.splits prod.splits sum.splits if_splits
      dest!: scan_info_length parse_hunks_length)

text \<open>The loop of \<open>parse_diff\<close> over the lines (lines 89 to 99).\<close>

function parse_files :: "string list \<Rightarrow> error + FileDiff list" where
  "parse_files [] = Inr []"
| "parse_files (line # rest) =
     (if startswith line ''diff --git'' then
        (case parse_file_diff (line # rest) of
           Inl e \<Rightarrow> Inl e
         | Inr (file_diff, next_lines) \<Rightarrow>
             (case parse_files next_lines of
                Inl e \<Rightarrow> Inl e
              | Inr fs \<Rightarrow> Inr ((case file_diff of Some f \<Rightarrow> [f] | None \<Rightarrow> []) @ fs)))
      else parse_files rest)"
  by pat_completeness auto
termination
  by (relation "measure length") (auto dest: parse_file_diff_length)

text \<open>\<open>GitDiffParser.parse_diff\<close>.\<close>

definition parse_diff :: "string \<Rightarrow> error + GitDiffResult" where
  "parse_diff diff_text =
     (case parse_files (split_lines diff_text) of
        Inl e \<Rightarrow> Inl e
      | Inr fs \<Rightarrow>
          Inr \<lparr>files = fs,
               total_added = sum_list (map added_lines fs),
               total_removed = sum_list (map removed_lines fs)\<rparr>)"

section \<open>Focused review (git/focused_review.py)\<close>

text \<open>
  An issue and a suggestion of the core analyzer are dictionaries; a key that may be
  missing is an option, and \<open>issue.get(key, default)\<close> is \<open>get_or\<close>.
\<close>

record Issue =
  issue_line :: "int option"
  issue_type :: "string option"
  issue_severity :: "string option"
  issue_message :: "string option"
  issue_suggestion :: "string option"
  issue_explanation :: "string option"

record Suggestion =
  suggestion_line :: "int option"
  suggestion_text :: string
  suggestion_file :: "string option"
  suggestion_change_context :: "string option"

record AnalysisResult =
  result_issues :: "Issue list"
  result_suggestions :: "Suggestion list"

record FocusedIssue =
  focused_file_path :: string
  focused_line_number :: int
  focused_old_line_number :: "int option"
  focused_change_type :: ChangeType
  focused_issue_type :: string
  focused_severity :: string
  focused_message :: string
  focused_suggestion :: string
  focused_explanation :: "string option"
  focused_code_snippet :: string

record DiffSummary =
  total_files :: int
  modified_files :: int
  binary_files :: int
  summary_total_added :: int
  summary_total_removed :: int
  net_change :: int

record FocusedReviewResult =
  diff_summary :: DiffSummary
  issues :: "FocusedIssue list"
  suggestions :: "Suggestion list"
  files_reviewed :: int
  lines_reviewed :: int
  commit_message_suggestions :: "string list"

fun get_or :: "'a option \<Rightarrow> 'a \<Rightarrow> 'a" where
  "get_or None d = d"
| "get_or (Some v) d = v"

text \<open>\<open>_find_line_context\<close>: the first diff line, over all hunks, whose new line number
  is the given one.\<close>

definition find_line_context :: "FileDiff \<Rightarrow> int \<Rightarrow> ChangeType \<times> int option" where
  "find_line_context file_diff n =
     (case find (\<lambda>diff_line. new_line_number diff_line = Some n) (all_lines file_diff) of
        Some diff_line \<Rightarrow> (change_type diff_line, old_line_number diff_line)
      | None \<Rightarrow> (MODIFIED, None))"

text \<open>
  The collaborators of \<open>_analyze_file_changes\<close> are parameters, gathered in a record:
  \<open>get_file_content\<close> (\<open>None\<close> when the file cannot be read), the core analyzer's
  \<open>analyze_file\<close> (\<open>None\<close> when it raises, which the \<open>try\<close> block catches), the rendering
  \<open>get_code_snippet\<close> and the text generator for commit messages.
\<close>

record Collaborators =
  get_file_content :: "string \<Rightarrow> string option"
  analyze_file :: "string \<Rightarrow> AnalysisResult option"
  get_code_snippet :: "string \<Rightarrow> int \<Rightarrow> string"
  generate_commit_message_suggestions :: "GitDiffResult \<Rightarrow> string list"

text \<open>The \<open>FocusedIssue\<close> built for an issue that is kept (lines 145 to 158).\<close>

definition focused_issue :: "Collaborators \<Rightarrow> FileDiff \<Rightarrow> string \<Rightarrow> Issue \<Rightarrow> FocusedIssue" where
  "focused_issue env file_diff file_content issue =
     (let issue_line = get_or (issue_line issue) 0 in
      case find_line_context file_diff issue_line of (ct, old_line) \<Rightarrow>
        \<lparr>focused_file_path = new_path file_diff,
         focused_line_number = issue_line,
         focused_old_line_number = old_line,
         focused_change_type = ct,
         focused_issue_type = get_or (issue_type issue) ''unknown'',
         focused_severity = get_or (issue_severity issue) ''info'',
         focused_message = get_or (issue_message issue) [],
         focused_suggestion = get_or (issue_suggestion issue) [],
         focused_explanation = issue_explanation issue,
         focused_code_snippet = get_code_snippet env file_content issue_line\<rparr>)"

text \<open>The loop over \<open>analysis_result.issues\<close> (lines 141 to 159).\<close>

fun focus_issues ::
  "Collaborators \<Rightarrow> FileDiff \<Rightarrow> string \<Rightarrow> int set \<Rightarrow> Issue list \<Rightarrow> FocusedIssue list" where
  "focus_issues env file_diff file_content added [] = []"
| "focus_issues env file_diff file_content added (issue # rest) =
     (if get_or (issue_line issue) 0 \<in> added then
        focused_issue env file_diff file_content issue
        # focus_issues env file_diff file_content added rest
      else focus_issues env file_diff file_content added rest)"

text \<open>The loop over \<open>analysis_result.suggestions\<close> (lines 162 to 167).\<close>

fun focus_suggestions :: "FileDiff \<Rightarrow> int set \<Rightarrow> Suggestion list \<Rightarrow> Suggestion list" where
  "focus_suggestions file_diff added [] = []"
| "focus_suggestions file_diff added (suggestion # rest) =
     (if get_or (suggestion_line suggestion) 0 \<in> added then
        suggestion\<lparr>suggestion_file := Some (new_path file_diff),
                   suggestion_change_context := Some ''newly_added''\<rparr>
        # focus_suggestions file_diff added rest
      else focus_suggestions file_diff added rest)"

text \<open>
  \<open>_analyze_file_changes\<close>. \<open>not file_content\<close> holds for \<open>None\<close> and for the empty
  string. The value of \<open>_create_focused_content\<close> is never used and the function has no
  effect, so it is left out. An exception of the analyzer is caught before any issue
  was appended, and leaves the line count at 0.
\<close>

definition analyze_file_changes ::
  "Collaborators \<Rightarrow> FileDiff \<Rightarrow> FocusedIssue list \<times> Suggestion list \<times> int" where
  "analyze_file_changes env file_diff =
     (if file_change_type file_diff = REMOVED then ([], [], 0)
      else case get_file_content env (new_path file_diff) of
        None \<Rightarrow> ([], [], 0)
      | Some file_content \<Rightarrow>
          if file_content = [] then ([], [], 0)
          else
            let added = fst (get_changed_lines_for_file file_diff) in
            if added = {} then ([], [], 0)
            else (case analyze_file env (new_path file_diff) of
                    None \<Rightarrow> ([], [], 0)
                  | Some analysis_result \<Rightarrow>
                      (focus_issues env file_diff file_content added (result_issues analysis_result),
                       focus_suggestions file_diff added (result_suggestions analysis_result),
                       int (card added))))"

text \<open>The loop of \<open>analyze_diff\<close> over \<open>diff_result.files\<close> (lines 73 to 84), with its
  three accumulators.\<close>

fun review_files ::
  "Collaborators \<Rightarrow> FileDiff list \<Rightarrow> FocusedIssue list \<times> Suggestion list \<times> int \<Rightarrow>
   FocusedIssue list \<times> Suggestion list \<times> int" where
  "review_files env [] acc = acc"
| "review_files env (file_diff # rest) (all_issues, all_suggestions, total_lines_reviewed) =
     (if is_binary file_diff then
        review_files env rest (all_issues, all_suggestions, total_lines_reviewed)
      else case analyze_file_changes env file_diff of
        (file_issues, file_suggestions, lines_count) \<Rightarrow>
          review_files env rest
            (all_issues @ file_issues, all_suggestions @ file_suggestions,
             total_lines_reviewed + lines_count))"

text \<open>\<open>analyze_diff\<close> from line 68 on, applied to the parsed diff.\<close>

definition analyze_diff_result :: "Collaborators \<Rightarrow> GitDiffResult \<Rightarrow> FocusedReviewResult" where
  "analyze_diff_result env diff_result =
     (case review_files env (files diff_result) ([], [], 0) of
        (all_issues, all_suggestions, total_lines_reviewed) \<Rightarrow>
          \<lparr>diff_summary =
             \<lparr>total_files = int (length (files diff_result)),
              modified_files = int (length (filter (\<lambda>f. \<not> is_binary f) (files diff_result))),
              binary_files = int (length (filter is_binary (files diff_result))),
              summary_total_added = total_added diff_result,
              summary_total_removed = total_removed diff_result,
              net_change = total_added diff_result - total_removed diff_result\<rparr>,
           issues = all_issues,
           suggestions = all_suggestions,
           files_reviewed = int (length (filter (\<lambda>f. \<not> is_binary f) (files diff_result))),
           lines_reviewed = total_lines_reviewed,
           commit_message_suggestions = generate_commit_message_suggestions env diff_result\<rparr>)"

text \<open>\<open>FocusedReviewAnalyzer.analyze_diff\<close>: the diff is parsed and then reviewed.\<close>

definition analyze_diff :: "Collaborators \<Rightarrow> string \<Rightarrow> error + FocusedReviewResult" where
  "analyze_diff env diff_text =
     (case parse_diff diff_text of
        Inl e \<Rightarrow> Inl e
      | Inr diff_result \<Rightarrow> Inr (analyze_diff_result env diff_result))"

text \<open>
  The files that the specification counts as reviewed: not binary, not removed, and with
  at least one added line.
\<close>

definition spec_reviewed :: "FileDiff \<Rightarrow> bool" where
  "spec_reviewed f =
     (\<not> is_binary f \<and> file_change_type f \<noteq> REMOVED \<and> fst (get_changed_lines_for_file f) \<noteq> {})"

text \<open>The files on which \<open>_analyze_file_changes\<close> reaches the analyzer and the analyzer
  returns: reviewed in the sense above, readable, and analyzed without an exception.\<close>

definition analyzed :: "Collaborators \<Rightarrow> FileDiff \<Rightarrow> bool" where
  "analyzed env f =
     (spec_reviewed f
      \<and> (case get_file_content env (new_path f) of None \<Rightarrow> False | Some c \<Rightarrow> c \<noteq> [])
      \<and> analyze_file env (new_path f) \<noteq> None)"

section \<open>The complexity checker (analyzers/checkers/complexity_checker.py)\<close>

text \<open>
  A node of Python's \<open>ast\<close> module, reduced to what the checker reads: its class, the
  fields \<open>name\<close> and \<open>lineno\<close> of a function definition, \<open>len(node.values)\<close> of a
  \<open>BoolOp\<close>, \<open>len(node.ops)\<close> of a \<open>Compare\<close>, and the list of its children as
  \<open>ast.iter_child_nodes\<close> yields them. Every other class is \<open>Other\<close>.
\<close>

datatype node_class =
    FunctionDef string int | AsyncFunctionDef string int
  | If | While | For | AsyncFor | ExceptHandler | With | AsyncWith | Try | Assert
  | BoolOp int | Compare int | Other string

































section \<open>Example inputs\<close>

text \<open>
  What git prints when the last line of a three-line file is changed and neither
  version ends with a line feed: the hunk holds two marker lines
  \<open>\ No newline at end of file\<close>. The new file has the lines 1 to 3 and the added line is
  line 3.
\<close>

definition no_newline_marker :: string where
  "no_newline_marker = CHR 0x5C # '' No newline at end of file''"

definition marker_diff :: string where
  "marker_diff = concat (map (\<lambda>l. l @ [CHR 0x0A])
     [''diff --git a/f.txt b/f.txt'',
      ''index 1..2 100644'',
      ''--- a/f.txt'',
      ''+++ b/f.txt'',
      ''@@ -1,3 +1,3 @@'',
      '' a'',
      '' b'',
      ''-c'',
      no_newline_marker,
      ''+d'',
      no_newline_marker])"

definition marker_file :: FileDiff where
  "marker_file = \<lparr>old_path = ''f.txt'', new_path = ''f.txt'', file_change_type = MODIFIED,
     hunks = [\<lparr>old_start = 1, old_count = 3, new_start = 1, new_count = 3,
       lines =
         [\<lparr>line_number = 1, old_line_number = Some 1, new_line_number = Some 1,
            content = ''a'', change_type = MODIFIED\<rparr>,
          \<lparr>line_number = 2, old_line_number = Some 2, new_line_number = Some 2,
            content = ''b'', change_type = MODIFIED\<rparr>,
          \<lparr>line_number = 3, old_line_number = Some 3, new_line_number = None,
            content = ''c'', change_type = REMOVED\<rparr>,
          \<lparr>line_number = 3, old_line_number = Some 4, new_line_number = Some 3,
            content = '' No newline at end of file'', change_type = MODIFIED\<rparr>,
          \<lparr>line_number = 4, old_line_number = None, new_line_number = Some 4,
            content = ''d'', change_type = ADDED\<rparr>,
          \<lparr>line_number = 5, old_line_number = Some 5, new_line_number = Some 5,
            content = '' No newline at end of file'', change_type = MODIFIED\<rparr>],
       hunk_context = ''@@ -1,3 +1,3 @@''\<rparr>],
     added_lines = 1, removed_lines = 1, is_binary = False\<rparr>"

text \<open>
  A malformed diff: the new start of its hunk header is a number of 4301 digits.
\<close>

definition long_number :: string where
  "long_number = replicate 4301 (CHR ''1'')"

definition long_number_header :: string where
  "long_number_header = ''@@ -1 +'' @ long_number @ '' @@''"

definition long_number_diff :: string where
  "long_number_diff = ''diff --git a/x b/x'' @ CHR 0x0A # long_number_header"


text \<open>
  A file whose single hunk adds lines 10 to 12 after a context line 9 and removes old
  line 10, with an analyzer that reports one issue on line 11, one on line 5 and one
  without a line; and a diff that only deletes a file.
\<close>

definition example_hunk :: DiffHunk where
  "example_hunk = \<lparr>old_start = 9, old_count = 2, new_start = 9, new_count = 4,
     lines =
       [\<lparr>line_number = 9, old_line_number = Some 9, new_line_number = Some 9,
          content = ''ctx'', change_type = MODIFIED\<rparr>,
        \<lparr>line_number = 10, old_line_number = Some 10, new_line_number = None,
          content = ''old'', change_type = REMOVED\<rparr>,
        \<lparr>line_number = 10, old_line_number = None, new_line_number = Some 10,
          content = ''a'', change_type = ADDED\<rparr>,
        \<lparr>line_number = 11, old_line_number = None, new_line_number = Some 11,
          content = ''b'', change_type = ADDED\<rparr>,
        \<lparr>line_number = 12, old_line_number = None, new_line_number = Some 12,
          content = ''c'', change_type = ADDED\<rparr>],
     hunk_context = ''@@ -9,2 +9,4 @@''\<rparr>"

definition example_file :: FileDiff where
  "example_file = \<lparr>old_path = ''m.py'', new_path = ''m.py'', file_change_type = MODIFIED,
     hunks = [example_hunk], added_lines = 3, removed_lines = 1, is_binary = False\<rparr>"

definition example_issue :: "int option \<Rightarrow> string \<Rightarrow> Issue" where
  "example_issue l t = \<lparr>issue_line = l, issue_type = Some t, issue_severity = Some ''warning'',
     issue_message = Some ''msg'', issue_suggestion = None, issue_explanation = None\<rparr>"

definition example_env :: Collaborators where
  "example_env = \<lparr>get_file_content = (\<lambda>p. Some ''text''),
     analyze_file = (\<lambda>p. Some \<lparr>result_issues =
        [example_issue (Some 11) ''hardcoded_secret'', example_issue (Some 5) ''long_function'',
         example_issue None ''style''],
        result_suggestions = []\<rparr>),
     get_code_snippet = (\<lambda>c n. []),
     generate_commit_message_suggestions = (\<lambda>d. [])\<rparr>"

definition deleted_file :: FileDiff where
  "deleted_file = \<lparr>old_path = ''gone.py'', new_path = ''gone.py'', file_change_type = REMOVED,
     hunks = [\<lparr>old_start = 1, old_count = 1, new_start = 0, new_count = 0,
               lines = [\<lparr>line_number = 1, old_line_number = Some 1, new_line_number = None,
                          content = ''x'', change_type = REMOVED\<rparr>],
               hunk_context = ''@@ -1 +0,0 @@''\<rparr>],
     added_lines = 0, removed_lines = 1, is_binary = False\<rparr>"

definition deletion_diff :: GitDiffResult where
  "deletion_diff = \<lparr>files = [deleted_file], total_added = 0, total_removed = 1\<rparr>"

text \<open>A file whose hunk starts the new side at line 0 and adds one line there.\<close>

definition zero_line_file :: FileDiff where
  "zero_line_file = \<lparr>old_path = ''z.py'', new_path = ''z.py'', file_change_type = MODIFIED,
     hunks = [\<lparr>old_start = 0, old_count = 0, new_start = 0, new_count = 1,
               lines = [\<lparr>line_number = 0, old_line_number = None, new_line_number = Some 0,
                          content = ''x'', change_type = ADDED\<rparr>],
               hunk_context = ''@@ -0,0 +0,1 @@''\<rparr>],
     added_lines = 1, removed_lines = 0, is_binary = False\<rparr>"

text \<open>The text of a diff that deletes a file, and of a diff whose hunk header puts
  the new side at line 0.\<close>

definition deletion_text :: string where
  "deletion_text = concat (map (\<lambda>l. l @ [CHR 0x0A])
     [''diff --git a/gone.py b/gone.py'',
      ''deleted file mode 100644'',
      ''--- a/gone.py'',
      ''+++ /dev/null'',
      ''@@ -1 +0,0 @@'',
      ''-x''])"

definition zero_line_text :: string where
  "zero_line_text = concat (map (\<lambda>l. l @ [CHR 0x0A])
     [''diff --git a/z.py b/z.py'',
      ''@@ -0,0 +0,1 @@'',
      ''+x''])"

section \<open>Theorems about rule resolution\<close>

lemma length_filter_mono:
  "(\<And>x. x \<in> set xs \<Longrightarrow> P x \<Longrightarrow> Q x) \<Longrightarrow> length (filter P xs) \<le> length (filter Q xs)"
  by (induction xs) auto

text \<open>
  C9. The severity filter keeps, in their order, exactly the results whose severity is at
  or above \<open>severity_threshold\<close>; raising the threshold never increases the number of
  results returned for the same input.
\<close>

theorem severity_filter_exact_and_monotone:
  "set (filter_results_by_severity config results) =
     {r \<in> set results. severity_order (result_severity r) \<ge> severity_order (severity_threshold config)}
   \<and> subseq (filter_results_by_severity config results) results
   \<and> (severity_order t1 \<le> severity_order t2 \<longrightarrow>
        length (filter_results_by_severity (config\<lparr>severity_threshold := t2\<rparr>) results)
        \<le> length (filter_results_by_severity (config\<lparr>severity_threshold := t1\<rparr>) results))"
proof (intro conjI impI)
  show "set (filter_results_by_severity config results) =
     {r \<in> set results. severity_order (result_severity r) \<ge> severity_order (severity_threshold config)}"
    by (simp add: filter_results_by_severity_def)
  show "subseq (filter_results_by_severity config results) results"
    by (simp add: filter_results_by_severity_def)
  assume "severity_order t1 \<le> severity_order t2"
  then show "length (filter_results_by_severity (config\<lparr>severity_threshold := t2\<rparr>) results)
        \<le> length (filter_results_by_severity (config\<lparr>severity_threshold := t1\<rparr>) results)"
    unfolding filter_results_by_severity_def Let_def
    by (intro length_filter_mono) simp
qed

theorem severity_filter_exact_and_monotone_witness:
  "severity_order INFO \<le> severity_order WARNING
   \<and> length (filter_results_by_severity (example_config\<lparr>severity_threshold := WARNING\<rparr>) example_results) = 2
   \<and> length (filter_results_by_severity (example_config\<lparr>severity_threshold := INFO\<rparr>) example_results) = 3"
  using severity_filter_exact_and_monotone [of example_config example_results INFO WARNING]
  by (simp add: filter_results_by_severity_def example_results_def)

text \<open>
  C10. A checker that is absent from the \<open>checkers\<close> map is enabled, and a rule that is
  absent from the \<open>rules\<close> map of its (enabled) checker is enabled.
\<close>

theorem unmentioned_enabled_by_default:
  "(checkers config checker_name = None \<longrightarrow> is_checker_enabled config checker_name)
   \<and> (is_checker_enabled config checker_name \<longrightarrow>
        (\<forall>cc. checkers config checker_name = Some cc \<longrightarrow> rules cc rule_name = None) \<longrightarrow>
        is_rule_enabled fnm rex config checker_name rule_name context)"
  by (auto simp: is_checker_enabled_def is_rule_enabled_def split: option.splits)

theorem unmentioned_enabled_by_default_witness:
  "checkers example_config ''naming'' = None
   \<and> is_checker_enabled example_config ''naming''
   \<and> is_checker_enabled example_config ''style''
   \<and> rules example_checker ''trailing_whitespace'' = None
   \<and> is_rule_enabled glob_exact no_regex example_config ''style'' ''trailing_whitespace''
        \<lparr>file_path = ''a.py'', file_type = Some PYTHON\<rparr>
   \<and> is_rule_enabled glob_exact no_regex example_config ''naming'' ''any_rule''
        \<lparr>file_path = ''a.py'', file_type = Some PYTHON\<rparr>"
  using unmentioned_enabled_by_default [of example_config "''naming''" "''any_rule''" glob_exact no_regex
          "\<lparr>file_path = ''a.py'', file_type = Some PYTHON\<rparr>"]
        unmentioned_enabled_by_default [of example_config "''style''" "''trailing_whitespace''" glob_exact no_regex
          "\<lparr>file_path = ''a.py'', file_type = Some PYTHON\<rparr>"]
  by (simp add: example_config_def example_checker_def is_checker_enabled_def)

text \<open>
  C8, as stated, fails: a rule that declares the allow-list [python] fires for a file
  whose type is unknown (here notes.txt, for which get_file_type returns None), because
  the allow-list is only consulted when the context carries a file type.
\<close>

theorem rule_fires_despite_allow_list:
  "is_rule_enabled glob_exact no_regex example_config ''style'' ''line_too_long''
     \<lparr>file_path = ''notes.txt'', file_type = None\<rparr>
   \<and> file_types example_rule = Some [PYTHON]
   \<and> \<not> spec_file_type_allowed example_rule \<lparr>file_path = ''notes.txt'', file_type = None\<rparr>"
  by (simp add: is_rule_enabled_def is_checker_enabled_def example_config_def example_checker_def
      example_rule_def spec_file_type_allowed_def matches_pattern_def glob_exact_def)

text \<open>
  C8, amended. A rule fires exactly when its checker is enabled at the top level and,
  if the rule is configured, it is not disabled, the file's type (when it is known) is in
  the rule's non-empty allow-list (when one is declared), and no rule-specific ignore
  pattern matches the file path. The effective severity is the checker's
  severity_override when one is declared; otherwise the configured rule's severity;
  otherwise (checker or rule not configured) the severity the result came with.
\<close>

theorem rule_resolution:
  "(is_rule_enabled fnm rex config c r ctx \<longleftrightarrow>
      is_checker_enabled config c
      \<and> (\<forall>cc rc. checkers config c = Some cc \<longrightarrow> rules cc r = Some rc \<longrightarrow>
            enabled rc
            \<and> (\<forall>fts ft. file_types rc = Some fts \<longrightarrow> fts \<noteq> [] \<longrightarrow> file_type ctx = Some ft \<longrightarrow>
                  ft \<in> set fts)
            \<and> (\<forall>p \<in> set (ignore_patterns rc). \<not> fnm (file_path ctx) p)))
   \<and> (\<forall>cc. checkers config c = Some cc \<longrightarrow>
         (\<forall>s. severity_override cc = Some s \<longrightarrow> get_effective_severity config c r d = s)
         \<and> (severity_override cc = None \<longrightarrow>
              (\<forall>rc. rules cc r = Some rc \<longrightarrow> get_effective_severity config c r d = severity rc)
              \<and> (rules cc r = None \<longrightarrow> get_effective_severity config c r d = d)))
   \<and> (checkers config c = None \<longrightarrow> get_effective_severity config c r d = d)"
proof (intro conjI)
  show "is_rule_enabled fnm rex config c r ctx \<longleftrightarrow>
      is_checker_enabled config c
      \<and> (\<forall>cc rc. checkers config c = Some cc \<longrightarrow> rules cc r = Some rc \<longrightarrow>
            enabled rc
            \<and> (\<forall>fts ft. file_types rc = Some fts \<longrightarrow> fts \<noteq> [] \<longrightarrow> file_type ctx = Some ft \<longrightarrow>
                  ft \<in> set fts)
            \<and> (\<forall>p \<in> set (ignore_patterns rc). \<not> fnm (file_path ctx) p))"
    by (auto simp: is_rule_enabled_def matches_pattern_def list_ex_iff split: option.splits)
qed (auto simp: get_effective_severity_def split: option.splits)

text \<open>
  The amended C8 at a concrete configuration.
\<close>

theorem rule_resolution_witness:
  "is_rule_enabled glob_exact no_regex example_config ''style'' ''line_too_long''
     \<lparr>file_path = ''a.py'', file_type = Some PYTHON\<rparr>
   \<and> is_checker_enabled example_config ''style''
   \<and> checkers example_config ''style'' = Some example_checker
   \<and> rules example_checker ''line_too_long'' = Some example_rule
   \<and> enabled example_rule
   \<and> PYTHON \<in> set [PYTHON]
   \<and> \<not> glob_exact ''a.py'' ''vendor.py''
   \<and> severity_override example_checker = None
   \<and> get_effective_severity example_config ''style'' ''line_too_long'' WARNING = SUGGESTION
   \<and> get_effective_severity
        (example_config\<lparr>checkers := [''style'' \<mapsto> example_checker\<lparr>severity_override := Some ERROR\<rparr>]\<rparr>)
        ''style'' ''line_too_long'' WARNING = ERROR"
  using rule_resolution [of glob_exact no_regex example_config "''style''" "''line_too_long''"
          "\<lparr>file_path = ''a.py'', file_type = Some PYTHON\<rparr>" WARNING]
        rule_resolution [of glob_exact no_regex
          "example_config\<lparr>checkers := [''style'' \<mapsto> example_checker\<lparr>severity_override := Some ERROR\<rparr>]\<rparr>"
          "''style''" "''line_too_long''"
          "\<lparr>file_path = ''a.py'', file_type = Some PYTHON\<rparr>" WARNING]
  by (simp add: example_config_def example_checker_def example_rule_def is_checker_enabled_def glob_exact_def)

section \<open>Theorems about the line mapper\<close>

lemma fold_changed_line:
  "fold changed_line ls (a, r) =
     (a \<union> {n. n \<noteq> 0 \<and> (\<exists>l \<in> set ls. change_type l = ADDED \<and> new_line_number l = Some n)},
      r \<union> {n. n \<noteq> 0 \<and> (\<exists>l \<in> set ls. change_type l = REMOVED \<and> old_line_number l = Some n)})"
proof (induction ls arbitrary: a r)
  case Nil
  show ?case by simp
next
  case (Cons l ls)
  show ?case
  proof (cases "change_type l = ADDED \<and> truthy (new_line_number l)")
    case True
    then obtain n where n: "new_line_number l = Some n" "n \<noteq> 0"
      by (cases "new_line_number l") auto
    with True show ?thesis by (auto simp: Cons.IH)
  next
    case False
    note nadd = this
    show ?thesis
    proof (cases "change_type l = REMOVED \<and> truthy (old_line_number l)")
      case True
      then obtain n where n: "old_line_number l = Some n" "n \<noteq> 0"
        by (cases "old_line_number l") auto
      with True nadd show ?thesis by (auto simp: Cons.IH)
    next
      case False
      have a: "\<And>n. change_type l = ADDED \<Longrightarrow> new_line_number l = Some n \<Longrightarrow> n = 0"
        using nadd by auto
      have r: "\<And>n. change_type l = REMOVED \<Longrightarrow> old_line_number l = Some n \<Longrightarrow> n = 0"
        using False by auto
      from False nadd have "changed_line l (a, r) = (a, r)"
        by auto
      then have "fold changed_line (l # ls) (a, r) = fold changed_line ls (a, r)"
        by simp
      then show ?thesis using a r by (auto simp: Cons.IH)
    qed
  qed
qed

lemma fold_hunks_changed:
  "fold (\<lambda>hunk acc. fold changed_line (lines hunk) acc) hs (a, r) =
     (a \<union> {n. n \<noteq> 0 \<and> (\<exists>l \<in> set (concat (map lines hs)). change_type l = ADDED \<and> new_line_number l = Some n)},
      r \<union> {n. n \<noteq> 0 \<and> (\<exists>l \<in> set (concat (map lines hs)). change_type l = REMOVED \<and> old_line_number l = Some n)})"
proof (induction hs arbitrary: a r)
  case Nil
  show ?case by simp
next
  case (Cons h hs)
  show ?case by (simp add: fold_changed_line Cons.IH) blast
qed

lemma changed_lines_char:
  "get_changed_lines_for_file fd = (spec_added fd - {0}, spec_removed fd - {0})"
  unfolding get_changed_lines_for_file_def fold_hunks_changed spec_added_def spec_removed_def all_lines_def
  by auto

text \<open>
  C6, amended. \<open>get_changed_lines_for_file\<close> returns exactly the set of non-zero
  \<open>new_line_number\<close> values of the added lines across all hunks as \<open>added\<close>, and exactly
  the set of non-zero \<open>old_line_number\<close> values of the removed lines as \<open>removed\<close>; it
  is a function of the hunks alone.
\<close>

theorem changed_lines_nonzero:
  "get_changed_lines_for_file file_diff = (spec_added file_diff - {0}, spec_removed file_diff - {0})"
  by (rule changed_lines_char)

text \<open>
  The amended C6 on the example file.
\<close>

theorem changed_lines_nonzero_witness:
  "get_changed_lines_for_file example_file = ({10, 11, 12}, {10})
   \<and> spec_added example_file - {0} = {10, 11, 12} \<and> spec_removed example_file - {0} = {10}"
proof -
  have a: "get_changed_lines_for_file example_file = ({10, 11, 12}, {10})"
    by (auto simp: get_changed_lines_for_file_def example_file_def example_hunk_def)
  have b: "(spec_added example_file - {0}, spec_removed example_file - {0}) = ({10, 11, 12}, {10})"
    using changed_lines_nonzero [of example_file] a by simp
  from b show ?thesis by (simp add: a)
qed

text \<open>
  C6, as stated, fails: an added line whose new line number is 0 is not in the
  \<open>added\<close> set, because the loop tests the truth value of the line number. The parser
  produces such a line from a hunk header that starts the new side at 0.
\<close>

theorem changed_lines_skips_line_zero:
  "parse_diff zero_line_text = Inr \<lparr>files = [zero_line_file], total_added = 1, total_removed = 0\<rparr>
   \<and> 0 \<in> spec_added zero_line_file \<and> fst (get_changed_lines_for_file zero_line_file) = {}"
proof -
  have "parse_diff zero_line_text = Inr \<lparr>files = [zero_line_file], total_added = 1, total_removed = 0\<rparr>"
    by code_simp
  then show ?thesis
    by (simp add: spec_added_def all_lines_def get_changed_lines_for_file_def zero_line_file_def)
qed

section \<open>Theorems about focused review\<close>

lemma focus_issues_filter:
  "focus_issues env fd c added is =
     map (focused_issue env fd c) (filter (\<lambda>i. get_or (issue_line i) 0 \<in> added) is)"
  by (induction "is") simp_all

lemma focused_issue_fields:
  "focused_file_path (focused_issue env fd c i) = new_path fd"
  "focused_line_number (focused_issue env fd c i) = get_or (issue_line i) 0"
  by (simp_all add: focused_issue_def Let_def split: prod.splits)

lemma review_files_acc:
  "review_files env fs (a, s, t) =
     (a @ concat (map (\<lambda>f. fst (analyze_file_changes env f)) (filter (\<lambda>f. \<not> is_binary f) fs)),
      s @ concat (map (\<lambda>f. fst (snd (analyze_file_changes env f))) (filter (\<lambda>f. \<not> is_binary f) fs)),
      t + sum_list (map (\<lambda>f. snd (snd (analyze_file_changes env f))) (filter (\<lambda>f. \<not> is_binary f) fs)))"
proof (induction fs arbitrary: a s t)
  case Nil
  show ?case by simp
next
  case (Cons f fs)
  show ?case
  proof (cases "is_binary f")
    case True
    then show ?thesis by (simp add: Cons.IH)
  next
    case False
    obtain x y z where xyz: "analyze_file_changes env f = (x, y, z)"
      by (cases "analyze_file_changes env f") auto
    with False show ?thesis by (simp add: Cons.IH)
  qed
qed

lemma issues_analyze_diff_result:
  "issues (analyze_diff_result env dr) =
     concat (map (\<lambda>f. fst (analyze_file_changes env f)) (filter (\<lambda>f. \<not> is_binary f) (files dr)))"
  by (simp add: analyze_diff_result_def review_files_acc)

lemma analyzed_file_changes:
  assumes "analyzed env fd"
    and "get_file_content env (new_path fd) = Some c"
    and "analyze_file env (new_path fd) = Some res"
  shows "analyze_file_changes env fd =
     (focus_issues env fd c (fst (get_changed_lines_for_file fd)) (result_issues res),
      focus_suggestions fd (fst (get_changed_lines_for_file fd)) (result_suggestions res),
      int (card (fst (get_changed_lines_for_file fd))))"
  using assms by (simp add: analyzed_def spec_reviewed_def analyze_file_changes_def Let_def)

lemma not_analyzed_file_changes:
  assumes "\<not> analyzed env fd" and "\<not> is_binary fd"
  shows "analyze_file_changes env fd = ([], [], 0)"
  using assms
  by (auto simp: analyzed_def spec_reviewed_def analyze_file_changes_def Let_def split: option.splits)

lemma file_issue_lines_added:
  "fi \<in> set (fst (analyze_file_changes env f)) \<Longrightarrow>
     focused_file_path fi = new_path f \<and> focused_line_number fi \<in> fst (get_changed_lines_for_file f)"
  by (auto simp: analyze_file_changes_def Let_def focus_issues_filter focused_issue_fields
      split: if_splits option.splits)

text \<open>
  C1. For an analyzed file, the issues that \<open>_analyze_file_changes\<close> returns are, in
  order, exactly the analyzer's issues whose line is in the file's added-line set; the
  issue list of the review result is the concatenation of these per-file lists over the
  non-binary files, so every issue in it lies on an added line of its file.
\<close>

theorem focused_filter_correct:
  "(analyzed env fd \<longrightarrow> get_file_content env (new_path fd) = Some c \<longrightarrow>
      analyze_file env (new_path fd) = Some res \<longrightarrow>
      fst (analyze_file_changes env fd) =
        map (focused_issue env fd c)
          (filter (\<lambda>i. get_or (issue_line i) 0 \<in> fst (get_changed_lines_for_file fd)) (result_issues res)))
   \<and> issues (analyze_diff_result env dr) =
        concat (map (\<lambda>f. fst (analyze_file_changes env f)) (filter (\<lambda>f. \<not> is_binary f) (files dr)))
   \<and> (\<forall>fi \<in> set (issues (analyze_diff_result env dr)). \<exists>f \<in> set (files dr).
         \<not> is_binary f \<and> focused_file_path fi = new_path f
         \<and> focused_line_number fi \<in> fst (get_changed_lines_for_file f))"
proof (intro conjI impI ballI)
  assume "analyzed env fd" "get_file_content env (new_path fd) = Some c"
    "analyze_file env (new_path fd) = Some res"
  then show "fst (analyze_file_changes env fd) =
        map (focused_issue env fd c)
          (filter (\<lambda>i. get_or (issue_line i) 0 \<in> fst (get_changed_lines_for_file fd)) (result_issues res))"
    by (simp add: analyzed_file_changes focus_issues_filter)
next
  show "issues (analyze_diff_result env dr) =
        concat (map (\<lambda>f. fst (analyze_file_changes env f)) (filter (\<lambda>f. \<not> is_binary f) (files dr)))"
    by (rule issues_analyze_diff_result)
next
  fix fi assume "fi \<in> set (issues (analyze_diff_result env dr))"
  then obtain f where f: "f \<in> set (files dr)" "\<not> is_binary f"
      "fi \<in> set (fst (analyze_file_changes env f))"
    by (auto simp: issues_analyze_diff_result)
  with file_issue_lines_added [OF f(3)]
  show "\<exists>f \<in> set (files dr). \<not> is_binary f \<and> focused_file_path fi = new_path f
         \<and> focused_line_number fi \<in> fst (get_changed_lines_for_file f)"
    by blast
qed

lemma example_added: "fst (get_changed_lines_for_file example_file) = {10, 11, 12}"
  by (auto simp: get_changed_lines_for_file_def example_file_def example_hunk_def)

text \<open>
  C1 on the example of the specification: lines 10 to 12 are added, the issue on line 11
  survives, the issue on line 5 and the issue without a line do not.
\<close>

theorem focused_filter_correct_witness:
  "analyzed example_env example_file
   \<and> get_file_content example_env (new_path example_file) = Some ''text''
   \<and> map focused_line_number (fst (analyze_file_changes example_env example_file)) = [11]
   \<and> map focused_issue_type
        (issues (analyze_diff_result example_env
           \<lparr>files = [example_file], total_added = 3, total_removed = 1\<rparr>)) = [''hardcoded_secret'']"
proof -
  let ?res = "\<lparr>result_issues =
        [example_issue (Some 11) ''hardcoded_secret'', example_issue (Some 5) ''long_function'',
         example_issue None ''style''],
        result_suggestions = []\<rparr>"
  let ?dr = "\<lparr>files = [example_file], total_added = 3, total_removed = 1\<rparr>"
  have a: "analyzed example_env example_file"
    by (simp add: analyzed_def spec_reviewed_def example_added)
       (simp add: example_env_def example_file_def)
  have c: "get_file_content example_env (new_path example_file) = Some ''text''"
    by (simp add: example_env_def)
  have r: "analyze_file example_env (new_path example_file) = Some ?res"
    by (simp add: example_env_def)
  note t = focused_filter_correct [of example_env example_file "''text''" ?res ?dr]
  from t a c r have 1: "fst (analyze_file_changes example_env example_file) =
        map (focused_issue example_env example_file ''text'')
          (filter (\<lambda>i. get_or (issue_line i) 0 \<in> {10, 11, 12}) (result_issues ?res))"
    by (simp add: example_added)
  from t have 2: "issues (analyze_diff_result example_env ?dr) =
        fst (analyze_file_changes example_env example_file)"
    by (simp add: example_file_def)
  have 3: "map focused_line_number (fst (analyze_file_changes example_env example_file)) = [11]"
    by (simp add: 1 example_issue_def focused_issue_fields)
  have 4: "map focused_issue_type (fst (analyze_file_changes example_env example_file)) = [''hardcoded_secret'']"
    by (simp add: 1 example_issue_def focused_issue_def Let_def split: prod.splits)
  from a c 3 4 2 show ?thesis by simp
qed

lemma lines_count_file:
  "\<not> is_binary f \<Longrightarrow> snd (snd (analyze_file_changes env f)) =
     (if analyzed env f then int (card (fst (get_changed_lines_for_file f))) else 0)"
  by (auto simp: analyzed_def spec_reviewed_def analyze_file_changes_def Let_def split: option.splits)

lemma sum_analyzed:
  "sum_list (map (\<lambda>f. snd (snd (analyze_file_changes env f))) (filter (\<lambda>f. \<not> is_binary f) fs)) =
   sum_list (map (\<lambda>f. int (card (fst (get_changed_lines_for_file f)))) (filter (analyzed env) fs))"
proof (induction fs)
  case Nil
  show ?case by simp
next
  case (Cons f fs)
  have "analyzed env f \<Longrightarrow> \<not> is_binary f" by (simp add: analyzed_def spec_reviewed_def)
  then show ?case using Cons.IH by (auto simp: lines_count_file)
qed

text \<open>
  C2, amended. \<open>files_reviewed\<close> is the number of non-binary files of the diff, and
  \<open>lines_reviewed\<close> is the sum of the added-line-set sizes over the files that were
  analyzed: not binary, not removed, with a non-empty added-line set, readable and
  analyzed without an exception.
\<close>

theorem review_counts:
  "files_reviewed (analyze_diff_result env dr) = int (length (filter (\<lambda>f. \<not> is_binary f) (files dr)))
   \<and> lines_reviewed (analyze_diff_result env dr) =
       sum_list (map (\<lambda>f. int (card (fst (get_changed_lines_for_file f)))) (filter (analyzed env) (files dr)))"
  by (simp add: analyze_diff_result_def review_files_acc sum_analyzed)

text \<open>
  The amended C2 on a diff of the example file and a deleted file.
\<close>

theorem review_counts_witness:
  "files_reviewed (analyze_diff_result example_env
      \<lparr>files = [example_file, deleted_file], total_added = 3, total_removed = 2\<rparr>) = 2
   \<and> lines_reviewed (analyze_diff_result example_env
      \<lparr>files = [example_file, deleted_file], total_added = 3, total_removed = 2\<rparr>) = 3"
proof -
  have a: "analyzed example_env example_file"
    by (simp add: analyzed_def spec_reviewed_def example_added)
       (simp add: example_env_def example_file_def)
  have d: "\<not> analyzed example_env deleted_file"
    by (simp add: analyzed_def spec_reviewed_def deleted_file_def)
  have b: "\<not> is_binary example_file" "\<not> is_binary deleted_file"
    by (simp_all add: example_file_def deleted_file_def)
  show ?thesis
    using review_counts [of example_env "\<lparr>files = [example_file, deleted_file], total_added = 3, total_removed = 2\<rparr>"]
    by (simp add: a d b example_added)
qed

text \<open>
  C2, as stated, fails: for the diff that deletes one file, \<open>files_reviewed\<close> is 1
  although no file satisfies the specification's notion of reviewed.
\<close>

theorem files_reviewed_counts_deleted_file:
  "parse_diff deletion_text = Inr deletion_diff
   \<and> analyze_diff example_env deletion_text = Inr (analyze_diff_result example_env deletion_diff)
   \<and> files_reviewed (analyze_diff_result example_env deletion_diff) = 1
   \<and> length (filter spec_reviewed (files deletion_diff)) = 0"
proof -
  have p: "parse_diff deletion_text = Inr deletion_diff"
    by code_simp
  then have "analyze_diff example_env deletion_text = Inr (analyze_diff_result example_env deletion_diff)"
    by (simp add: analyze_diff_def)
  with p show ?thesis
    by (simp add: analyze_diff_result_def deletion_diff_def deleted_file_def spec_reviewed_def
      analyze_file_changes_def)
qed

section \<open>Theorems about configuration merging\<close>






section \<open>Theorems about the complexity checker\<close>


















section \<open>Theorems about the diff parser\<close>

text \<open>
  C4. On the hunk that git prints for a change of the last line of a file without a final
  line feed, the parser takes each marker line for a context line and advances both
  counters: the new line numbers assigned run to 5 although the hunk covers the new
  lines 1 to 3 (\<open>new_start + new_count - 1 = 3\<close>), and the added line, which is line 3
  of the new file, is numbered 4.
\<close>

theorem no_newline_marker_shifts_line_numbers:
  "parse_diff marker_diff = Inr \<lparr>files = [marker_file], total_added = 1, total_removed = 1\<rparr>
   \<and> List.map_filter new_line_number (all_lines marker_file) = [1, 2, 3, 4, 5]
   \<and> map (\<lambda>h. new_start h + new_count h - 1) (hunks marker_file) = [3]
   \<and> fst (get_changed_lines_for_file marker_file) = {4}"
proof (intro conjI)
  show "parse_diff marker_diff = Inr \<lparr>files = [marker_file], total_added = 1, total_removed = 1\<rparr>"
    by code_simp
  show "List.map_filter new_line_number (all_lines marker_file) = [1, 2, 3, 4, 5]"
    by code_simp
  show "map (\<lambda>h. new_start h + new_count h - 1) (hunks marker_file) = [3]"
    by (simp add: marker_file_def)
  show "fst (get_changed_lines_for_file marker_file) = {4}"
    by (simp add: get_changed_lines_for_file_def marker_file_def)
qed

lemma split_lines_no_feed: "CHR 0x0A \<notin> set s \<Longrightarrow> split_lines s = [s]"
  by (induction s) auto

lemma split_lines_at_feed:
  "CHR 0x0A \<notin> set a \<Longrightarrow> split_lines (a @ CHR 0x0A # b) = a # split_lines b"
  by (induction a) auto

lemma is_digit_one: "is_digit (CHR ''1'')"
  by (simp add: is_digit_def)

lemma long_number_facts:
  "length long_number = 4301"
  "list_all is_digit long_number"
  "takeWhile is_digit (long_number @ CHR '' '' # s) = long_number"
  "dropWhile is_digit (long_number @ CHR '' '' # s) = CHR '' '' # s"
  "CHR 0x0A \<notin> set long_number"
proof -
  have d: "\<forall>c \<in> set long_number. is_digit c"
    by (simp add: long_number_def is_digit_one)
  have n: "\<not> is_digit (CHR '' '')"
    by (simp add: is_digit_def)
  show "length long_number = 4301" by (simp add: long_number_def)
  from d show "list_all is_digit long_number" by (simp add: list_all_iff)
  from d n show "takeWhile is_digit (long_number @ CHR '' '' # s) = long_number"
    by (simp add: takeWhile_append2)
  from d n show "dropWhile is_digit (long_number @ CHR '' '' # s) = CHR '' '' # s"
    by (simp add: dropWhile_append2)
  show "CHR 0x0A \<notin> set long_number" by (simp add: long_number_def)
qed

lemma py_int_long_number: "py_int long_number = Inl ValueError"
  by (simp add: py_int_def max_str_digits_def long_number_facts)

lemma hunk_match_long_number:
  "hunk_match long_number_header = Some (''1'', None, long_number, None)"
proof -
  have "long_number \<noteq> []"
    using long_number_facts(1) by auto
  then show ?thesis
    by (simp add: hunk_match_def long_number_header_def match_hunk_header_def take_digits_def
        opt_count_def is_space_def is_digit_def long_number_facts)
qed

lemma parse_hunk_long_number: "parse_hunk [long_number_header] = Inl ValueError"
proof -
  have s: "startswith long_number_header ''@@''"
    by (simp add: startswith_def long_number_header_def)
  have one: "py_int ''1'' = Inr 1"
    by (simp add: py_int_def max_str_digits_def is_digit_def)
  show ?thesis
    by (simp add: parse_hunk_def s hunk_match_long_number one count_or_one_def py_int_long_number)
qed

lemma long_number_header_facts:
  "startswith long_number_header ''@@''"
  "hunk_end long_number_header"
  "CHR 0x0A \<notin> set long_number_header"
  by (simp_all add: startswith_def hunk_end_def long_number_header_def long_number_facts)

lemma split_long_number_diff:
  "split_lines long_number_diff = [''diff --git a/x b/x'', long_number_header]"
  unfolding long_number_diff_def
  by (subst split_lines_at_feed) (simp_all add: split_lines_no_feed long_number_header_facts)

lemma git_header_x: "re_search match_git_header ''diff --git a/x b/x'' = Some (''x'', ''x'')"
  by code_simp

lemma startswith_git_x: "startswith ''diff --git a/x b/x'' ''diff --git''"
  by (simp add: startswith_def)

lemma parse_hunks_long_number: "parse_hunks [long_number_header] = Inl ValueError"
  by (simp add: long_number_header_facts parse_hunk_long_number)

lemma parse_file_diff_long_number:
  "parse_file_diff [''diff --git a/x b/x'', long_number_header] = Inl ValueError"
proof -
  have "file_header [''diff --git a/x b/x'', long_number_header]
      = ((Some ''x'', Some ''x'', MODIFIED, False), [long_number_header])"
    by (simp add: file_header_def startswith_git_x git_header_x del: re_search.simps)
  then show ?thesis
    by (simp add: parse_file_diff_def long_number_header_facts parse_hunks_long_number
        del: parse_hunks.simps)
qed

text \<open>
  C5. \<open>parse_diff\<close> raises on a malformed diff: for a hunk header whose new start has
  4301 digits, \<open>int\<close> raises \<open>ValueError\<close> in \<open>_parse_hunk\<close>, and neither it nor
  \<open>_parse_file_diff\<close> nor \<open>parse_diff\<close> catches the exception.
\<close>

theorem parse_diff_raises_on_long_number:
  "parse_diff long_number_diff = Inl ValueError"
proof -
  have "parse_files [''diff --git a/x b/x'', long_number_header] = Inl ValueError"
    by (simp add: startswith_git_x parse_file_diff_long_number)
  then show ?thesis
    by (simp add: parse_diff_def split_long_number_diff del: parse_files.simps)
qed


end
